theory Spec2Isabelle
  imports Main "HOL-Library.Sublist"
begin

section \<open>The chore game of \<open>src/App.tsx\<close>\<close>

text \<open>
  The component \<open>App\<close> keeps its whole state in ten \<open>useState\<close> cells and changes it
  in event handlers and effects. Each handler is a function from the state of the render
  it was created in to the state after its updates; clock readings (\<open>Date.now()\<close>,
  \<open>new Date()\<close>) are arguments of the handler that reads them. Numbers are integers
  (\<^typ>\<open>int\<close>): the program computes with integers only, and JavaScript's numbers are
  exact on them up to \<open>2^53\<close>. Styling, animation and toast notifications are output only
  and have no part in the state.
\<close>

subsection \<open>Strings\<close>

text \<open>
  A JavaScript string is a sequence of code units. The strings of this theory are the
  ones whose code units are below 256 (\<^typ>\<open>char\<close> has eight bits); on these
  \<open>trim\<close> and \<open>toLowerCase\<close> are what ECMAScript defines: the white space and line
  terminators below 256 are TAB, LF, VT, FF, CR, SP and NBSP, and the letters with a
  lower-case form are A to Z and U+00C0 to U+00DE without the multiplication sign U+00D7.
\<close>

definition isWhiteSpace :: "char \<Rightarrow> bool" where
  "isWhiteSpace c = (of_char c \<in> {9, 10, 11, 12, 13, 32, 160 :: nat})"

definition trim :: "string \<Rightarrow> string" where
  "trim s = rev (dropWhile isWhiteSpace (rev (dropWhile isWhiteSpace s)))"

definition lowerChar :: "char \<Rightarrow> char" where
  "lowerChar c =
     (let n = (of_char c :: nat)
      in if (65 \<le> n \<and> n \<le> 90) \<or> (192 \<le> n \<and> n \<le> 222 \<and> n \<noteq> 215)
         then char_of (n + 32) else c)"

definition toLowerCase :: "string \<Rightarrow> string" where
  "toLowerCase s = map lowerChar s"

text \<open>
  \<open>s.includes(k)\<close>: \<open>k\<close> occurs in \<open>s\<close> at some position (\<open>includes\<close> itself is a
  keyword of the theory language).
\<close>

fun str_includes :: "string \<Rightarrow> string \<Rightarrow> bool" where
  "str_includes [] k = (k = [])"
| "str_includes (c # s) k = (prefix k (c # s) \<or> str_includes s k)"

subsection \<open>Chores and settings\<close>

datatype difficulty = easy | medium | hard

text \<open>A glyph is the list of the Unicode code points of an emoji string.\<close>

type_synonym glyph = "nat list"

text \<open>
  \<open>lastCompleted\<close> is \<open>string | null\<close>: \<open>None\<close> is \<open>null\<close>. The field \<open>id\<close> of the
  source is \<open>chore_id\<close> here.
\<close>

record chore =
  chore_id :: int
  name :: string
  difficulty :: difficulty
  lastCompleted :: "string option"
  streak :: int
  emoji :: glyph

record settings =
  time :: int
  multiplier :: int
  color :: string

fun DIFFICULTY_SETTINGS :: "difficulty \<Rightarrow> settings" where
  "DIFFICULTY_SETTINGS easy = \<lparr>time = 45, multiplier = 1, color = ''#4CAF50''\<rparr>"
| "DIFFICULTY_SETTINGS medium = \<lparr>time = 30, multiplier = 2, color = ''#FF9800''\<rparr>"
| "DIFFICULTY_SETTINGS hard = \<lparr>time = 15, multiplier = 3, color = ''#f44336''\<rparr>"

subsection \<open>Emoji lookup\<close>

text \<open>
  The object literal \<open>CHORE_EMOJI_MAPPING\<close>, as the list of its properties in the order
  they are written. No key is an array index, so \<open>Object.keys\<close> lists the keys in this
  order; \<open>default\<close> is one of them.
\<close>

definition CHORE_EMOJI_MAPPING :: "(string \<times> glyph) list" where
  "CHORE_EMOJI_MAPPING =
    [(''clean'', [0x1F9F9]), (''vacuum'', [0x1F9F9]), (''dust'', [0x1F9F9]),
     (''sweep'', [0x1F9F9]), (''mop'', [0x1F9F9]), (''wash'', [0x1F9FD]),
     (''laundry'', [0x1F455]), (''clothes'', [0x1F455]), (''fold'', [0x1F455]),
     (''iron'', [0x1F454]),
     (''dishes'', [0x1F37D, 0xFE0F]), (''dish'', [0x1F37D, 0xFE0F]),
     (''kitchen'', [0x1F373]), (''cook'', [0x1F468, 0x200D, 0x1F373]),
     (''cooking'', [0x1F468, 0x200D, 0x1F373]), (''meal'', [0x1F373]),
     (''bathroom'', [0x1F6BD]), (''toilet'', [0x1F6BD]), (''shower'', [0x1F6BF]),
     (''bed'', [0x1F6CF, 0xFE0F]), (''bedroom'', [0x1F6CF, 0xFE0F]),
     (''sheets'', [0x1F6CF, 0xFE0F]),
     (''garden'', [0x1F331]), (''plant'', [0x1F331]), (''lawn'', [0x1F33F]),
     (''yard'', [0x1F3E1]), (''outdoor'', [0x1F3E1]),
     (''trash'', [0x1F5D1, 0xFE0F]), (''garbage'', [0x1F5D1, 0xFE0F]),
     (''recycling'', [0x267B, 0xFE0F]),
     (''dog'', [0x1F415]), (''cat'', [0x1F431]), (''pet'', [0x1F43E]),
     (''feed'', [0x1F43E]), (''walk'', [0x1F415]),
     (''organize'', [0x1F4E6]), (''sort'', [0x1F4E6]), (''declutter'', [0x1F4E6]),
     (''tidy'', [0x1F5C4, 0xFE0F]),
     (''fix'', [0x1F527]), (''repair'', [0x1F527]), (''maintain'', [0x1F527]),
     (''homework'', [0x1F4DA]), (''study'', [0x1F4DA]), (''work'', [0x1F4BC]),
     (''desk'', [0x1F5A5, 0xFE0F]),
     (''exercise'', [0x1F3C3]), (''workout'', [0x1F4AA]), (''gym'', [0x1F3CB, 0xFE0F]),
     (''default'', [0x2728])]"

definition Object_keys :: "(string \<times> glyph) list \<Rightarrow> string list" where
  "Object_keys m = map fst m"

text \<open>
  \<open>CHORE_EMOJI_MAPPING[k]\<close>. A key the object does not have reads as \<open>undefined\<close>,
  which is the empty glyph here; \<open>findEmojiForChore\<close> only reads keys of the object
  (lemma \<open>getEmoji_key\<close>).
\<close>

definition getEmoji :: "string \<Rightarrow> glyph" where
  "getEmoji k = (case map_of CHORE_EMOJI_MAPPING k of Some g \<Rightarrow> g | None \<Rightarrow> [])"

text \<open>
  \<open>matchingKeyword ? ... : ...\<close> takes the second branch when \<open>find\<close> returned
  \<open>undefined\<close> and when it returned the empty string.
\<close>

definition findEmojiForChore :: "string \<Rightarrow> glyph" where
  "findEmojiForChore choreName =
     (let lowercaseName = toLowerCase choreName;
          matchingKeyword = find (\<lambda>keyword. str_includes lowercaseName keyword)
                                 (Object_keys CHORE_EMOJI_MAPPING)
      in case matchingKeyword of
           Some keyword \<Rightarrow> if keyword \<noteq> [] then getEmoji keyword else getEmoji ''default''
         | None \<Rightarrow> getEmoji ''default'')"

subsection \<open>The platform\<close>

text \<open>
  \<open>JSON.parse\<close>, \<open>Date.prototype.toISOString\<close> and the \<open>Date\<close> constructor on a string
  belong to the browser, not to the repository: they are parameters. \<open>JSON.parse\<close>
  either throws or returns a value, which the load effect destructures as
  \<open>{chores, level, xp}\<close> with the types of the three state cells. \<open>getTime\<close> is
  \<open>new Date(s).getTime()\<close>; \<open>None\<close> is \<open>NaN\<close>, the time value of an invalid date.
  Time values are integers (milliseconds since the epoch).
\<close>

datatype js_error = SyntaxError

record saved =
  chores :: "chore list"
  level :: int
  xp :: int

record platform =
  JSON_parse :: "string \<Rightarrow> js_error + saved"
  toISOString :: "int \<Rightarrow> string"
  getTime :: "string \<Rightarrow> int option"

subsection \<open>State\<close>

text \<open>
  The ten \<open>useState\<close> cells. The three that are persisted come first, as the record
  \<^typ>\<open>saved\<close>, so that the object read from the store and the state share their
  selectors. \<open>currentChore\<close> is \<open>Chore | null\<close>.
\<close>

record state = saved +
  newChoreName :: string
  selectedDifficulty :: difficulty
  isPlaying :: bool
  currentChore :: "chore option"
  timer :: int
  points :: int
  showConfetti :: bool

definition initial :: state where
  "initial = \<lparr>chores = [], level = 1, xp = 0, newChoreName = [],
     selectedDifficulty = medium, isPlaying = False, currentChore = None,
     timer = 30, points = 0, showConfetti = False\<rparr>"

subsection \<open>Loading\<close>

text \<open>
  The first effect. Its argument is the result of \<open>localStorage.getItem\<close>: \<open>None\<close> is
  \<open>null\<close>. \<open>if (savedData)\<close> is false for \<open>null\<close> and for the empty string. There is
  no \<open>try\<close> around \<open>JSON.parse\<close>: what it throws leaves the effect.
\<close>

definition load_effect :: "platform \<Rightarrow> string option \<Rightarrow> state \<Rightarrow> js_error + state" where
  "load_effect P savedData s =
     (case savedData of
        None \<Rightarrow> Inr s
      | Some d \<Rightarrow>
          if d = [] then Inr s
          else (case JSON_parse P d of
                  Inl e \<Rightarrow> Inl e
                | Inr v \<Rightarrow> Inr (s\<lparr>chores := chores v, level := level v, xp := xp v\<rparr>)))"

subsection \<open>Handlers\<close>

definition handleAddChore :: "int \<Rightarrow> state \<Rightarrow> state" where
  "handleAddChore now s =
     (if trim (newChoreName s) = [] then s
      else
        let newChore = \<lparr>chore_id = now, name = newChoreName s,
                         difficulty = selectedDifficulty s, lastCompleted = None,
                         streak = 0, emoji = findEmojiForChore (newChoreName s)\<rparr>
        in s\<lparr>chores := chores s @ [newChore], newChoreName := []\<rparr>)"

definition handleRemoveChore :: "int \<Rightarrow> state \<Rightarrow> state" where
  "handleRemoveChore i s = s\<lparr>chores := filter (\<lambda>c. chore_id c \<noteq> i) (chores s)\<rparr>"

definition startGame :: "chore \<Rightarrow> state \<Rightarrow> state" where
  "startGame c s =
     s\<lparr>isPlaying := True, currentChore := Some c,
       timer := time (DIFFICULTY_SETTINGS (difficulty c)), points := 0\<rparr>"

text \<open>
  \<open>updateStreak\<close> reads the clock once (\<open>today\<close>). \<open>!chore.lastCompleted\<close> holds for
  \<open>null\<close> and for the empty string. With an invalid date \<open>diffDays\<close> is \<open>NaN\<close> and
  \<open>diffDays <= 1\<close> is false. \<open>Math.floor\<close> of the quotient is \<open>div\<close>, which rounds
  down on \<^typ>\<open>int\<close>.
\<close>

definition updateStreak :: "platform \<Rightarrow> int \<Rightarrow> chore \<Rightarrow> int" where
  "updateStreak P today c =
     (case lastCompleted c of
        None \<Rightarrow> 1
      | Some l \<Rightarrow>
          if l = [] then 1
          else (case getTime P l of
                  None \<Rightarrow> 1
                | Some t \<Rightarrow>
                    let diffDays = (today - t) div (1000 * 60 * 60 * 24)
                    in if diffDays \<le> 1 then streak c + 1 else 1))"

text \<open>
  \<open>endGame\<close> reads the clock twice: \<open>now\<close> for \<open>lastCompleted\<close>, then \<open>today\<close> inside
  \<open>updateStreak\<close>.
\<close>

definition endGame :: "platform \<Rightarrow> int \<Rightarrow> int \<Rightarrow> state \<Rightarrow> state" where
  "endGame P now today s =
     (case currentChore s of
        None \<Rightarrow> s
      | Some c \<Rightarrow>
          let finalPoints = points s * multiplier (DIFFICULTY_SETTINGS (difficulty c));
              newXp = xp s + finalPoints;
              newLevel = newXp div 1000 + 1;
              s1 = s\<lparr>xp := newXp\<rparr>;
              s2 = (if newLevel > level s
                    then s1\<lparr>level := newLevel, showConfetti := True\<rparr> else s1);
              updatedChore = c\<lparr>lastCompleted := Some (toISOString P now),
                               streak := updateStreak P today c\<rparr>
          in s2\<lparr>chores := map (\<lambda>x. if chore_id x = chore_id c then updatedChore else x)
                               (chores s2)\<rparr>)
     \<lparr>isPlaying := False, currentChore := None\<rparr>"

subsection \<open>Events\<close>

text \<open>
  What can happen to the mounted component. The render shows the chore list, the name
  input, the difficulty select and the Add, Play and Remove buttons when \<open>isPlaying\<close> is
  false, and the +1 Point and End Game buttons when it is true; a control that is not
  rendered has no handler to call. The countdown's timeout is set by the timer effect
  only while \<open>isPlaying && timer > 0\<close> and is cleared when either changes; when it
  fires, the effect of the next render calls \<open>endGame\<close> if the timer is then zero.
  \<open>ConfettiOff\<close> is the timeout that \<open>endGame\<close> sets on a level-up.
\<close>

datatype event =
    Change string
  | Select difficulty
  | Add int
  | Remove chore
  | Play chore
  | Point
  | End int int
  | Timeout int int
  | ConfettiOff

definition scorePoint :: "state \<Rightarrow> state" where
  "scorePoint s = s\<lparr>points := points s + 1\<rparr>"

definition timer_effect :: "platform \<Rightarrow> int \<Rightarrow> int \<Rightarrow> state \<Rightarrow> state" where
  "timer_effect P now today s =
     (if isPlaying s \<and> timer s > 0 then s
      else if isPlaying s \<and> timer s = 0 then endGame P now today s
      else s)"

fun dispatch :: "platform \<Rightarrow> event \<Rightarrow> state \<Rightarrow> state" where
  "dispatch P (Change v) s = (if \<not> isPlaying s then s\<lparr>newChoreName := v\<rparr> else s)"
| "dispatch P (Select d) s = (if \<not> isPlaying s then s\<lparr>selectedDifficulty := d\<rparr> else s)"
| "dispatch P (Add now) s = (if \<not> isPlaying s then handleAddChore now s else s)"
| "dispatch P (Remove c) s =
     (if \<not> isPlaying s \<and> c \<in> set (chores s) then handleRemoveChore (chore_id c) s else s)"
| "dispatch P (Play c) s =
     (if \<not> isPlaying s \<and> c \<in> set (chores s) then startGame c s else s)"
| "dispatch P Point s = (if isPlaying s then scorePoint s else s)"
| "dispatch P (End now today) s = (if isPlaying s then endGame P now today s else s)"
| "dispatch P (Timeout now today) s =
     (if isPlaying s \<and> timer s > 0
      then timer_effect P now today (s\<lparr>timer := timer s - 1\<rparr>) else s)"
| "dispatch P ConfettiOff s = s\<lparr>showConfetti := False\<rparr>"

fun run :: "platform \<Rightarrow> event list \<Rightarrow> state \<Rightarrow> state" where
  "run P [] s = s"
| "run P (e # es) s = run P es (dispatch P e s)"

text \<open>
  The states the component can be in: the state the load effect leaves at mount, and
  every state an event leads to from there.
\<close>

inductive reachable :: "platform \<Rightarrow> state \<Rightarrow> bool" for P :: platform where
  mount: "load_effect P savedData initial = Inr s \<Longrightarrow> reachable P s"
| event: "reachable P s \<Longrightarrow> reachable P (dispatch P e s)"

subsection \<open>A platform and a session for the examples\<close>

text \<open>
  \<open>iso_string\<close> is \<open>toISOString\<close> as ECMAScript defines it: the UTC date and time of a
  time value as \<open>YYYY-MM-DDTHH:mm:ss.sssZ\<close>, with a sign and six digits for a year
  outside 0 to 9999. \<open>civil\<close> gives year, month and day of a day number.
\<close>

primrec pad :: "nat \<Rightarrow> int \<Rightarrow> string" where
  "pad 0 n = []"
| "pad (Suc w) n = pad w (n div 10) @ [char_of (48 + n mod 10)]"

definition civil :: "int \<Rightarrow> int \<times> int \<times> int" where
  "civil days =
     (let z = days + 719468;
          era = z div 146097;
          doe = z mod 146097;
          yoe = (doe - doe div 1460 + doe div 36524 - doe div 146096) div 365;
          doy = doe - (365 * yoe + yoe div 4 - yoe div 100);
          mp = (5 * doy + 2) div 153;
          d = doy - (153 * mp + 2) div 5 + 1;
          m = (if mp < 10 then mp + 3 else mp - 9);
          y = yoe + era * 400 + (if m \<le> 2 then 1 else 0)
      in (y, m, d))"

definition iso_string :: "int \<Rightarrow> string" where
  "iso_string t =
     (let ms = t mod 86400000;
          (y, m, d) = civil (t div 86400000);
          year = (if 0 \<le> y \<and> y \<le> 9999 then pad 4 y
                  else (if y < 0 then ''-'' else ''+'') @ pad 6 \<bar>y\<bar>)
      in year @ ''-'' @ pad 2 m @ ''-'' @ pad 2 d @ ''T'' @ pad 2 (ms div 3600000) @ '':'' @
         pad 2 (ms div 60000 mod 60) @ '':'' @ pad 2 (ms div 1000 mod 60) @ ''.'' @
         pad 3 (ms mod 1000) @ ''Z'')"

text \<open>
  The text \<open>{"chores":[],"level":1,"xp":990}\<close> and the object it denotes; \<open>{bad\<close> is
  not JSON.
\<close>

definition quoted :: "string \<Rightarrow> string" where
  "quoted s = CHR 0x22 # s @ [CHR 0x22]"

definition stored_text :: string where
  "stored_text = ''{'' @ quoted ''chores'' @ '':[],'' @ quoted ''level'' @ '':1,'' @
                 quoted ''xp'' @ '':990}''"

definition stored_value :: saved where
  "stored_value = \<lparr>chores = [], level = 1, xp = 990\<rparr>"

definition corrupt_text :: string where
  "corrupt_text = ''{bad''"

text \<open>
  The sample platform parses \<open>stored_text\<close> and rejects every other text, writes dates
  with \<open>iso_string\<close>, and reads back the date of the instant 1700000060000
  (2023-11-14 22:14:20 UTC); any other string is an invalid date to it.
\<close>

definition sample_platform :: platform where
  "sample_platform =
     \<lparr>JSON_parse = (\<lambda>d. if d = stored_text then Inr stored_value else Inl SyntaxError),
      toISOString = iso_string,
      getTime = (\<lambda>l. find (\<lambda>t. iso_string t = l) [1700000060000])\<rparr>"

text \<open>
  A session: the store holds \<open>stored_text\<close> at mount; the user adds the hard chore
  ``Wash the dishes'' at the instant 1700000000000, starts it and scores five points.
\<close>

definition dishes :: chore where
  "dishes = \<lparr>chore_id = 1700000000000, name = ''Wash the dishes'', difficulty = hard,
              lastCompleted = None, streak = 0, emoji = [0x1F9FD]\<rparr>"

definition loaded :: state where
  "loaded = \<lparr>chores = [], level = 1, xp = 990, newChoreName = [],
     selectedDifficulty = medium, isPlaying = False, currentChore = None,
     timer = 30, points = 0, showConfetti = False\<rparr>"

definition started :: state where
  "started = \<lparr>chores = [dishes], level = 1, xp = 990, newChoreName = [],
     selectedDifficulty = hard, isPlaying = True, currentChore = Some dishes,
     timer = 15, points = 0, showConfetti = False\<rparr>"

definition playing :: state where
  "playing = started\<lparr>points := 5\<rparr>"

definition finished :: state where
  "finished =
     \<lparr>chores = [dishes\<lparr>lastCompleted := Some ''2023-11-14T22:14:20.000Z'', streak := 1\<rparr>],
      level = 2, xp = 1005, newChoreName = [], selectedDifficulty = hard,
      isPlaying = False, currentChore = None, timer = 15, points = 5,
      showConfetti = True\<rparr>"

text \<open>
  The finished session goes on: the user starts the same chore again and scores nothing.
\<close>

definition replay :: state where
  "replay =
     \<lparr>chores = [dishes\<lparr>lastCompleted := Some ''2023-11-14T22:14:20.000Z'', streak := 1\<rparr>],
      level = 2, xp = 1005, newChoreName = [], selectedDifficulty = hard,
      isPlaying = True,
      currentChore =
        Some (dishes\<lparr>lastCompleted := Some ''2023-11-14T22:14:20.000Z'', streak := 1\<rparr>),
      timer = 15, points = 0, showConfetti = True\<rparr>"

section \<open>Auxiliary facts\<close>

subsection \<open>Strings and the mapping\<close>

lemma dropWhile_all_iff: "(\<forall>x\<in>set (dropWhile P xs). P x) \<longleftrightarrow> (\<forall>x\<in>set xs. P x)"
  by (induction xs) auto

lemma trim_empty_iff: "trim s = [] \<longleftrightarrow> (\<forall>c\<in>set s. isWhiteSpace c)"
  by (simp add: trim_def dropWhile_all_iff)

lemma str_includes_iff: "str_includes s k \<longleftrightarrow> sublist k s"
  by (induction s) (auto simp: sublist_Cons_right)

lemma keys_distinct: "distinct (map fst CHORE_EMOJI_MAPPING)"
  by (simp add: CHORE_EMOJI_MAPPING_def)

lemma getEmoji_key: "(k, g) \<in> set CHORE_EMOJI_MAPPING \<Longrightarrow> getEmoji k = g"
  by (simp add: getEmoji_def keys_distinct)

lemma key_not_empty: "(k, g) \<in> set CHORE_EMOJI_MAPPING \<Longrightarrow> k \<noteq> []"
  by (auto simp: CHORE_EMOJI_MAPPING_def)

lemma getEmoji_default: "getEmoji ''default'' = [0x2728]"
  by (simp add: getEmoji_def CHORE_EMOJI_MAPPING_def)

lemma find_first:
  "xs = before @ x # after \<Longrightarrow> P x \<Longrightarrow> \<forall>y\<in>set before. \<not> P y \<Longrightarrow> find P xs = Some x"
  by (induction before arbitrary: xs) auto

lemma find_none: "\<forall>y\<in>set xs. \<not> P y \<Longrightarrow> find P xs = None"
  by (simp add: find_None_iff)

subsection \<open>The sample session\<close>

lemma lower_wash: "toLowerCase ''Wash the dishes'' = ''wash the dishes''"
  by code_simp

lemma wash_the_dishes: "findEmojiForChore ''Wash the dishes'' = [0x1F9FD]"
  by (simp add: findEmojiForChore_def lower_wash Object_keys_def CHORE_EMOJI_MAPPING_def
      getEmoji_def)

lemma lower_feed: "toLowerCase ''Feed the cat'' = ''feed the cat''"
  by code_simp

lemma feed_the_cat: "findEmojiForChore ''Feed the cat'' = [0x1F431]"
  by (simp add: findEmojiForChore_def lower_feed Object_keys_def CHORE_EMOJI_MAPPING_def
      getEmoji_def)

lemma lower_pay: "toLowerCase ''Pay bills'' = ''pay bills''"
  by code_simp

lemma iso_sample: "iso_string 1700000060000 = ''2023-11-14T22:14:20.000Z''"
  by code_simp

lemma sample_parse: "JSON_parse sample_platform stored_text = Inr stored_value"
  by (simp add: sample_platform_def)

lemma sample_parse_corrupt: "JSON_parse sample_platform corrupt_text = Inl SyntaxError"
  by (simp add: sample_platform_def corrupt_text_def stored_text_def)

lemma sample_getTime:
  "getTime sample_platform ''2023-11-14T22:14:20.000Z'' = Some 1700000060000"
  by (simp add: sample_platform_def iso_sample)

lemma stored_text_not_empty: "stored_text \<noteq> []"
  by (simp add: stored_text_def)

lemma load_sample: "load_effect sample_platform (Some stored_text) initial = Inr loaded"
  by (simp add: load_effect_def sample_parse stored_text_not_empty stored_value_def
      initial_def loaded_def)

lemma run_started:
  "run sample_platform
     [Change ''Wash the dishes'', Select hard, Add 1700000000000, Play dishes] loaded = started"
  by (simp add: loaded_def started_def dishes_def handleAddChore_def startGame_def
      wash_the_dishes trim_def isWhiteSpace_def)

lemma run_playing:
  "run sample_platform [Point, Point, Point, Point, Point] started = playing"
  by (simp add: playing_def started_def scorePoint_def)

lemma end_playing:
  "endGame sample_platform 1700000060000 1700000060001 playing = finished"
  by (simp add: playing_def started_def finished_def endGame_def dishes_def updateStreak_def
      sample_platform_def iso_sample)

lemma reachable_run: "reachable P s \<Longrightarrow> reachable P (run P es s)"
  by (induction es arbitrary: s) (auto intro: reachable.event)

lemma reachable_started: "reachable sample_platform started"
  using reachable_run [OF reachable.mount [OF load_sample]] run_started by metis

lemma reachable_playing: "reachable sample_platform playing"
  using reachable_run [OF reachable_started] run_playing by metis

lemma run_last_second:
  "run sample_platform (replicate 14 (Timeout 1700000060000 1700000060001)) started =
     started\<lparr>timer := 1\<rparr>"
  by (simp add: started_def numeral_eq_Suc timer_effect_def)

lemma reachable_last_second: "reachable sample_platform (started\<lparr>timer := 1\<rparr>)"
  using reachable_run [OF reachable_started] run_last_second by metis

lemma reachable_finished: "reachable sample_platform finished"
proof -
  have "dispatch sample_platform (End 1700000060000 1700000060001) playing = finished"
    by (simp add: end_playing) (simp add: playing_def started_def)
  then show ?thesis
    using reachable.event [OF reachable_playing, of "End 1700000060000 1700000060001"]
    by simp
qed

lemma play_again:
  "dispatch sample_platform
     (Play (dishes\<lparr>lastCompleted := Some ''2023-11-14T22:14:20.000Z'', streak := 1\<rparr>))
     finished = replay"
  by (simp add: finished_def replay_def startGame_def dishes_def)

lemma reachable_replay: "reachable sample_platform replay"
  using reachable.event [OF reachable_finished] play_again by metis

lemma iso_next_day: "iso_string 1700090060000 = ''2023-11-15T23:14:20.000Z''"
  by code_simp

lemma iso_two_days: "iso_string 1700172860000 = ''2023-11-16T22:14:20.000Z''"
  by code_simp

subsection \<open>Handlers and events\<close>

lemma reachable_invariant:
  "reachable P s \<Longrightarrow>
     0 \<le> points s \<and> (isPlaying s \<longleftrightarrow> currentChore s \<noteq> None) \<and>
     (\<forall>c. currentChore s = Some c \<longrightarrow> c \<in> set (chores s))"
proof (induction rule: reachable.induct)
  case (mount savedData s)
  then show ?case
    by (auto simp: load_effect_def initial_def split: option.splits if_splits sum.splits)
next
  case (event s e)
  then show ?case
    by (cases e)
       (auto simp: handleAddChore_def handleRemoveChore_def startGame_def scorePoint_def
          endGame_def timer_effect_def Let_def split: option.splits if_splits)
qed

lemma multiplier_nonneg: "0 \<le> multiplier (DIFFICULTY_SETTINGS d)"
  by (cases d) simp_all

lemma multiplier_cases:
  "multiplier (DIFFICULTY_SETTINGS d) = (case d of easy \<Rightarrow> 1 | medium \<Rightarrow> 2 | hard \<Rightarrow> 3)"
  by (cases d) simp_all

lemma time_cases:
  "time (DIFFICULTY_SETTINGS d) = (case d of easy \<Rightarrow> 45 | medium \<Rightarrow> 30 | hard \<Rightarrow> 15)"
  by (cases d) simp_all

lemma endGame_xp:
  "currentChore s = Some c \<Longrightarrow>
   xp (endGame P now today s) = xp s + points s * multiplier (DIFFICULTY_SETTINGS (difficulty c))"
  by (simp add: endGame_def Let_def)

lemma endGame_level:
  "currentChore s = Some c \<Longrightarrow>
   level (endGame P now today s) =
     max (level s) (xp (endGame P now today s) div 1000 + 1)"
  by (simp add: endGame_def Let_def max_def)

lemma endGame_idle: "currentChore s = None \<Longrightarrow>
   xp (endGame P now today s) = xp s \<and> level (endGame P now today s) = level s"
  by (simp add: endGame_def)

lemma endGame_chores:
  "currentChore s = Some c \<Longrightarrow>
   chores (endGame P now today s) =
     map (\<lambda>x. if chore_id x = chore_id c
               then c\<lparr>lastCompleted := Some (toISOString P now),
                      streak := updateStreak P today c\<rparr>
               else x) (chores s)"
  by (simp add: endGame_def Let_def)

lemma session_end:
  "isPlaying s \<Longrightarrow> e = End now today \<or> (e = Timeout now today \<and> timer s = 1) \<Longrightarrow>
   \<exists>s'. dispatch P e s = endGame P now today s' \<and> currentChore s' = currentChore s \<and>
        chores s' = chores s \<and> xp s' = xp s \<and> level s' = level s \<and> points s' = points s"
  by (auto simp: timer_effect_def)

text \<open>
  \<open>endGame\<close> keeps \<open>level = floor(xp / 1000) + 1\<close> when the points are not negative, and
  so does every event from a reachable state: from a store that holds the formula, or
  from no store, it holds in every state.
\<close>

lemma endGame_keeps_formula:
  assumes "0 \<le> points s" and "level s = xp s div 1000 + 1"
  shows "level (endGame P now today s) = xp (endGame P now today s) div 1000 + 1 \<and>
         xp s \<le> xp (endGame P now today s)"
proof (cases "currentChore s")
  case None
  with assms show ?thesis by (simp add: endGame_idle)
next
  case (Some c)
  have up: "xp s \<le> xp (endGame P now today s)"
    using assms(1) by (simp add: endGame_xp [OF Some] multiplier_nonneg)
  then have "xp s div 1000 \<le> xp (endGame P now today s) div 1000"
    by (rule zdiv_mono1) simp
  with assms(2) up show ?thesis
    by (simp add: endGame_level [OF Some])
qed

lemma dispatch_keeps_formula:
  assumes "reachable P s" and "level s = xp s div 1000 + 1"
  shows "level (dispatch P e s) = xp (dispatch P e s) div 1000 + 1"
proof -
  have p: "0 \<le> points s"
    using assms(1) by (simp add: reachable_invariant)
  show ?thesis
  proof (cases e)
    case (End now today)
    then show ?thesis
      using endGame_keeps_formula [OF p assms(2)] assms(2) by simp
  next
    case (Timeout now today)
    have "0 \<le> points (s\<lparr>timer := timer s - 1\<rparr>)"
      and "level (s\<lparr>timer := timer s - 1\<rparr>) = xp (s\<lparr>timer := timer s - 1\<rparr>) div 1000 + 1"
      using p assms(2) by simp_all
    from endGame_keeps_formula [OF this] Timeout assms(2) show ?thesis
      by (simp add: timer_effect_def)
  qed (simp_all add: assms(2) handleAddChore_def handleRemoveChore_def startGame_def
        scorePoint_def Let_def)
qed

lemma run_keeps_formula:
  "reachable P s \<Longrightarrow> level s = xp s div 1000 + 1 \<Longrightarrow>
   level (run P es s) = xp (run P es s) div 1000 + 1"
proof (induction es arbitrary: s)
  case Nil
  then show ?case by simp
next
  case (Cons e es)
  from Cons.prems have "reachable P (dispatch P e s)"
    and "level (dispatch P e s) = xp (dispatch P e s) div 1000 + 1"
    by (auto intro: reachable.event dispatch_keeps_formula)
  then show ?case
    by (simp add: Cons.IH)
qed

text \<open>
  A whole-day difference of at most 1 is a difference of less than two days; a reading
  of the clock that lies before \<open>lastCompleted\<close> counts as well.
\<close>

lemma two_days: "((x::int) div (1000 * 60 * 60 * 24) \<le> 1) = (x < 2 * 86400000)"
proof -
  have "((x::int) div 86400000 \<le> 1) = (x < 172800000)"
    by linarith
  then show ?thesis by simp
qed

text \<open>
  \<open>handleAddChore\<close> keeps the ids distinct when the clock reading it takes as the new
  id is not yet the id of a chore.
\<close>

lemma handleAddChore_fresh_id:
  "distinct (map chore_id (chores s)) \<Longrightarrow> now \<notin> chore_id ` set (chores s) \<Longrightarrow>
   distinct (map chore_id (chores (handleAddChore now s)))"
  by (simp add: handleAddChore_def Let_def)

section \<open>The claims\<close>

text \<open>
  C1. In every reachable state in which \<open>level = floor(xp / 1000) + 1\<close> holds, it holds
  again after \<open>endGame\<close>: \<open>endGame\<close> writes the level only when the new one is
  greater, and the new one is never smaller, because the points of a reachable state are
  not negative and \<open>xp\<close> does not decrease.
\<close>

theorem level_formula_preserved:
  assumes "reachable P s" and "level s = xp s div 1000 + 1"
  shows "level (endGame P now today s) = xp (endGame P now today s) div 1000 + 1 \<and>
         xp s \<le> xp (endGame P now today s)"
proof -
  have "0 \<le> points s"
    using assms(1) by (simp add: reachable_invariant)
  then show ?thesis
    using assms(2) by (rule endGame_keeps_formula)
qed

text \<open>
  The sample session ends with 5 points on a hard chore at \<open>xp = 990\<close>, level 1: the
  player arrives at \<open>xp = 1005\<close> and level 2.
\<close>

theorem level_formula_preserved_witness:
  "reachable sample_platform playing \<and> level playing = xp playing div 1000 + 1 \<and>
   xp playing = 990 \<and>
   xp (endGame sample_platform 1700000060000 1700000060001 playing) = 1005 \<and>
   level (endGame sample_platform 1700000060000 1700000060001 playing) = 2"
proof -
  have rel: "level playing = xp playing div 1000 + 1" and x: "xp playing = 990"
    by (simp_all add: playing_def started_def)
  have x': "xp (endGame sample_platform 1700000060000 1700000060001 playing) = 1005"
    by (simp add: end_playing finished_def)
  have "level (endGame sample_platform 1700000060000 1700000060001 playing) =
        xp (endGame sample_platform 1700000060000 1700000060001 playing) div 1000 + 1"
    using level_formula_preserved [OF reachable_playing rel] by simp
  then have "level (endGame sample_platform 1700000060000 1700000060001 playing) = 2"
    by (simp add: x')
  with reachable_playing rel x x' show ?thesis by simp
qed

text \<open>
  C2. The streak \<open>updateStreak\<close> gives a chore on completion: 1 if \<open>lastCompleted\<close> is
  \<open>null\<close>; otherwise, with \<open>t\<close> the time value of the date \<open>lastCompleted\<close> holds,
  the old streak plus 1 if the whole-day difference \<open>floor((today - t) / 86400000)\<close> is
  at most 1, and 1 if it is greater. A \<open>lastCompleted\<close> that is the empty string or not
  a date gives 1 as well.
\<close>

theorem updateStreak_rule:
  "(lastCompleted c = None \<longrightarrow> updateStreak P today c = 1) \<and>
   (\<forall>l t. lastCompleted c = Some l \<and> l \<noteq> [] \<and> getTime P l = Some t \<longrightarrow>
      updateStreak P today c =
        (if (today - t) div (1000 * 60 * 60 * 24) \<le> 1 then streak c + 1 else 1)) \<and>
   (\<forall>l. lastCompleted c = Some l \<and> (l = [] \<or> getTime P l = None) \<longrightarrow>
      updateStreak P today c = 1)"
  by (auto simp: updateStreak_def Let_def)

text \<open>
  The sample chore: never completed, its streak becomes 1. Completed at 22:14:20 with
  streak 1, and completed again 25 hours later (whole-day difference 1), its streak
  becomes 2; completed again 48 hours later (difference 2), it becomes 1. A chore whose
  \<open>lastCompleted\<close> the platform does not read as a date starts again at 1.
\<close>

theorem updateStreak_rule_witness:
  "lastCompleted dishes = None \<and> updateStreak sample_platform 1700000060000 dishes = 1 \<and>
   chores finished =
     [dishes\<lparr>lastCompleted := Some ''2023-11-14T22:14:20.000Z'', streak := 1\<rparr>] \<and>
   getTime sample_platform ''2023-11-14T22:14:20.000Z'' = Some 1700000060000 \<and>
   (1700000060000 + 25 * 3600000 - 1700000060000) div (1000 * 60 * 60 * 24) = (1::int) \<and>
   updateStreak sample_platform (1700000060000 + 25 * 3600000)
     (dishes\<lparr>lastCompleted := Some ''2023-11-14T22:14:20.000Z'', streak := 1\<rparr>) = 2 \<and>
   (1700000060000 + 48 * 3600000 - 1700000060000) div (1000 * 60 * 60 * 24) = (2::int) \<and>
   updateStreak sample_platform (1700000060000 + 48 * 3600000)
     (dishes\<lparr>lastCompleted := Some ''2023-11-14T22:14:20.000Z'', streak := 1\<rparr>) = 1 \<and>
   getTime sample_platform ''yesterday'' = None \<and>
   updateStreak sample_platform 1700000060000
     (dishes\<lparr>lastCompleted := Some ''yesterday'', streak := 7\<rparr>) = 1"
proof -
  let ?done = "dishes\<lparr>lastCompleted := Some ''2023-11-14T22:14:20.000Z'', streak := 1\<rparr>"
  have never: "lastCompleted dishes = None"
    by (simp add: dishes_def)
  have last: "lastCompleted ?done = Some ''2023-11-14T22:14:20.000Z'' \<and>
      ''2023-11-14T22:14:20.000Z'' \<noteq> [] \<and>
      getTime sample_platform ''2023-11-14T22:14:20.000Z'' = Some 1700000060000"
    by (simp add: sample_getTime)
  have s: "streak ?done = 1"
    by simp
  have first: "updateStreak sample_platform 1700000060000 dishes = 1"
    using updateStreak_rule [of dishes sample_platform 1700000060000] never by blast
  have next_day: "updateStreak sample_platform (1700000060000 + 25 * 3600000) ?done = 2"
    using updateStreak_rule [of ?done sample_platform "1700000060000 + 25 * 3600000",
        THEN conjunct2, THEN conjunct1, rule_format, OF last]
    by (simp add: s)
  have later: "updateStreak sample_platform (1700000060000 + 48 * 3600000) ?done = 1"
    using updateStreak_rule [of ?done sample_platform "1700000060000 + 48 * 3600000",
        THEN conjunct2, THEN conjunct1, rule_format, OF last]
    by simp
  have l: "chores finished = [?done]"
    by (simp add: finished_def)
  have invalid: "getTime sample_platform ''yesterday'' = None"
    by (simp add: sample_platform_def iso_sample)
  then have no_date: "updateStreak sample_platform 1700000060000
      (dishes\<lparr>lastCompleted := Some ''yesterday'', streak := 7\<rparr>) = 1"
    using updateStreak_rule [of "dishes\<lparr>lastCompleted := Some ''yesterday'', streak := 7\<rparr>"
        sample_platform 1700000060000, THEN conjunct2, THEN conjunct2, rule_format,
        of "''yesterday''"]
    by simp
  from never first l next_day later invalid no_date show ?thesis
    by (simp add: sample_getTime)
qed

text \<open>
  C3. \<open>handleAddChore\<close> adds the chore named by the input field, with the selected
  difficulty. When every character of the name is white space (the empty name among
  them) it changes nothing. Otherwise it appends one chore to the list, after the ones
  already there: its id is the clock reading, its streak 0, its \<open>lastCompleted\<close>
  \<open>null\<close> and its emoji what \<open>findEmojiForChore\<close> gives for the name.
\<close>

theorem handleAddChore_rule:
  "((\<forall>ch \<in> set (newChoreName s). isWhiteSpace ch) \<longrightarrow> handleAddChore now s = s) \<and>
   (\<not> (\<forall>ch \<in> set (newChoreName s). isWhiteSpace ch) \<longrightarrow>
      chores (handleAddChore now s) =
        chores s @ [\<lparr>chore_id = now, name = newChoreName s,
                      difficulty = selectedDifficulty s, lastCompleted = None, streak = 0,
                      emoji = findEmojiForChore (newChoreName s)\<rparr>] \<and>
      length (chores (handleAddChore now s)) = length (chores s) + 1)"
  using trim_empty_iff [of "newChoreName s"] by (simp add: handleAddChore_def Let_def)

text \<open>
  The empty name and the name of three spaces change nothing; ``Feed the cat'' is
  appended after the chore already there.
\<close>

theorem handleAddChore_rule_witness:
  "handleAddChore 1700000000000 (finished\<lparr>newChoreName := ''''\<rparr>) =
     finished\<lparr>newChoreName := ''''\<rparr> \<and>
   handleAddChore 1700000000000 (finished\<lparr>newChoreName := ''   ''\<rparr>) =
     finished\<lparr>newChoreName := ''   ''\<rparr> \<and>
   \<not> isWhiteSpace CHR ''F'' \<and>
   chores (handleAddChore 1700000090000
            (finished\<lparr>newChoreName := ''Feed the cat'', selectedDifficulty := easy\<rparr>)) =
     chores finished @
       [\<lparr>chore_id = 1700000090000, name = ''Feed the cat'', difficulty = easy,
         lastCompleted = None, streak = 0, emoji = [0x1F431]\<rparr>]"
proof -
  have e: "\<forall>ch \<in> set (newChoreName (finished\<lparr>newChoreName := ''''\<rparr>)). isWhiteSpace ch"
    by simp
  have b: "\<forall>ch \<in> set (newChoreName (finished\<lparr>newChoreName := ''   ''\<rparr>)). isWhiteSpace ch"
    by (simp add: isWhiteSpace_def)
  have f: "\<not> isWhiteSpace CHR ''F''"
    by (simp add: isWhiteSpace_def)
  then have n: "\<not> (\<forall>ch \<in> set (newChoreName
      (finished\<lparr>newChoreName := ''Feed the cat'', selectedDifficulty := easy\<rparr>)).
      isWhiteSpace ch)"
    by simp
  note r = handleAddChore_rule [THEN conjunct1, THEN mp]
  note a = handleAddChore_rule [THEN conjunct2, THEN mp, THEN conjunct1]
  show ?thesis
    using r [OF e, of 1700000000000] r [OF b, of 1700000000000] f a [OF n, of 1700000090000]
    by (simp add: feed_the_cat)
qed

text \<open>
  C4. A session ends by the End Game button or by the timeout that takes the timer from 1
  to 0. Either way \<open>xp\<close> grows by the session's points times the multiplier of the
  chore's difficulty (easy 1, medium 2, hard 3); 5 points on a hard chore add 15.
\<close>

theorem reward_is_points_times_multiplier:
  assumes "isPlaying s" and "currentChore s = Some c"
    and "e = End now today \<or> (e = Timeout now today \<and> timer s = 1)"
  shows "xp (dispatch P e s) =
           xp s + points s * (case difficulty c of easy \<Rightarrow> 1 | medium \<Rightarrow> 2 | hard \<Rightarrow> 3) \<and>
         (points s = 5 \<and> difficulty c = hard \<longrightarrow> xp (dispatch P e s) = xp s + 15)"
proof -
  obtain s' where s': "dispatch P e s = endGame P now today s'"
    "currentChore s' = currentChore s" "xp s' = xp s" "points s' = points s"
    using session_end [OF assms(1,3)] by blast
  have "xp (dispatch P e s) =
      xp s + points s * (case difficulty c of easy \<Rightarrow> 1 | medium \<Rightarrow> 2 | hard \<Rightarrow> 3)"
    using s' assms(2) by (simp add: endGame_xp [of s' c] multiplier_cases)
  then show ?thesis by simp
qed

text \<open>The sample session: 5 points on the hard chore take \<open>xp\<close> from 990 to 1005.\<close>

theorem reward_is_points_times_multiplier_witness:
  "isPlaying playing \<and> currentChore playing = Some dishes \<and> points playing = 5 \<and>
   difficulty dishes = hard \<and> xp playing = 990 \<and>
   xp (dispatch sample_platform (End 1700000060000 1700000060001) playing) = 1005"
proof -
  have a: "isPlaying playing" and b: "currentChore playing = Some dishes"
    and c: "points playing = 5" and d: "difficulty dishes = hard" and x: "xp playing = 990"
    by (simp_all add: playing_def started_def dishes_def)
  have "xp (dispatch sample_platform (End 1700000060000 1700000060001) playing) =
        xp playing + 15"
    using reward_is_points_times_multiplier [OF a b, of "End 1700000060000 1700000060001"
        1700000060000 1700000060001 sample_platform] c d by simp
  with a b c d x show ?thesis by simp
qed

text \<open>
  C5. For every chore name, \<open>findEmojiForChore\<close> lower-cases the name and returns the
  glyph of the first keyword, in the order the mapping declares them, that occurs in the
  lower-cased name: if the mapping is \<open>before @ (k, g) # after\<close>, \<open>k\<close> occurs and no
  keyword of \<open>before\<close> occurs, the result is \<open>g\<close>. If no keyword occurs, the result is
  the default glyph U+2728. In ``Wash the dishes'' both \<open>wash\<close> and \<open>dishes\<close> occur, and
  the result is the glyph of \<open>wash\<close> (U+1F9FD), not the one of \<open>dishes\<close>.
\<close>

theorem findEmojiForChore_first_match:
  "(\<forall>before k g after.
      CHORE_EMOJI_MAPPING = before @ (k, g) # after \<and> sublist k (toLowerCase n) \<and>
      (\<forall>(k', g') \<in> set before. \<not> sublist k' (toLowerCase n))
      \<longrightarrow> findEmojiForChore n = g) \<and>
   ((\<forall>(k, g) \<in> set CHORE_EMOJI_MAPPING. \<not> sublist k (toLowerCase n))
      \<longrightarrow> findEmojiForChore n = [0x2728]) \<and>
   sublist ''wash'' (toLowerCase ''Wash the dishes'') \<and>
   sublist ''dishes'' (toLowerCase ''Wash the dishes'') \<and>
   map_of CHORE_EMOJI_MAPPING ''wash'' = Some [0x1F9FD] \<and>
   map_of CHORE_EMOJI_MAPPING ''dishes'' = Some [0x1F37D, 0xFE0F] \<and>
   findEmojiForChore ''Wash the dishes'' = [0x1F9FD]"
proof (intro conjI allI impI)
  fix before k g after
  assume a: "CHORE_EMOJI_MAPPING = before @ (k, g) # after \<and> sublist k (toLowerCase n) \<and>
      (\<forall>(k', g') \<in> set before. \<not> sublist k' (toLowerCase n))"
  then have m: "CHORE_EMOJI_MAPPING = before @ (k, g) # after"
    and here: "sublist k (toLowerCase n)"
    and earlier: "\<forall>(k', g') \<in> set before. \<not> sublist k' (toLowerCase n)"
    by simp_all
  have keys: "Object_keys CHORE_EMOJI_MAPPING = map fst before @ k # map fst after"
    unfolding Object_keys_def by (subst m) simp
  have "find (\<lambda>keyword. str_includes (toLowerCase n) keyword) (Object_keys CHORE_EMOJI_MAPPING)
        = Some k"
    using here earlier by (intro find_first [OF keys]) (auto simp: str_includes_iff)
  moreover have "(k, g) \<in> set CHORE_EMOJI_MAPPING"
    by (subst m) simp
  ultimately show "findEmojiForChore n = g"
    using getEmoji_key [of k g] key_not_empty [of k g] by (simp add: findEmojiForChore_def)
next
  assume "\<forall>(k, g) \<in> set CHORE_EMOJI_MAPPING. \<not> sublist k (toLowerCase n)"
  then have "find (\<lambda>keyword. str_includes (toLowerCase n) keyword) (Object_keys CHORE_EMOJI_MAPPING)
        = None"
    by (intro find_none) (auto simp: Object_keys_def str_includes_iff)
  then show "findEmojiForChore n = [0x2728]"
    by (simp add: findEmojiForChore_def getEmoji_default)
next
  show "sublist ''wash'' (toLowerCase ''Wash the dishes'')"
    by (simp add: lower_wash str_includes_iff [symmetric])
  show "sublist ''dishes'' (toLowerCase ''Wash the dishes'')"
    by (simp add: lower_wash str_includes_iff [symmetric])
  show "map_of CHORE_EMOJI_MAPPING ''wash'' = Some [0x1F9FD]"
    by (simp add: CHORE_EMOJI_MAPPING_def)
  show "map_of CHORE_EMOJI_MAPPING ''dishes'' = Some [0x1F37D, 0xFE0F]"
    by (simp add: CHORE_EMOJI_MAPPING_def)
  show "findEmojiForChore ''Wash the dishes'' = [0x1F9FD]"
    by (rule wash_the_dishes)
qed

text \<open>
  In ``Feed the cat'' the keywords \<open>cat\<close> and \<open>feed\<close> occur; \<open>cat\<close> is declared first
  and its glyph U+1F431 is the result. No keyword occurs in ``Pay bills''.
\<close>

theorem findEmojiForChore_first_match_witness:
  "sublist ''feed'' (toLowerCase ''Feed the cat'') \<and>
   sublist ''cat'' (toLowerCase ''Feed the cat'') \<and>
   findEmojiForChore ''Feed the cat'' = [0x1F431] \<and>
   findEmojiForChore ''Pay bills'' = [0x2728]"
proof -
  let ?before = "take 31 CHORE_EMOJI_MAPPING" and ?after = "drop 32 CHORE_EMOJI_MAPPING"
  have split: "CHORE_EMOJI_MAPPING = ?before @ (''cat'', [0x1F431]) # ?after"
    by (simp add: CHORE_EMOJI_MAPPING_def)
  have cat: "sublist ''cat'' (toLowerCase ''Feed the cat'')"
    by (simp add: lower_feed str_includes_iff [symmetric])
  have feed: "sublist ''feed'' (toLowerCase ''Feed the cat'')"
    by (simp add: lower_feed str_includes_iff [symmetric])
  have none: "\<forall>(k', g') \<in> set ?before. \<not> sublist k' (toLowerCase ''Feed the cat'')"
    by (simp add: lower_feed str_includes_iff [symmetric] CHORE_EMOJI_MAPPING_def)
  have "findEmojiForChore ''Feed the cat'' = [0x1F431]"
    by (rule findEmojiForChore_first_match [of "''Feed the cat''", THEN conjunct1, rule_format,
        of ?before "''cat''" "[0x1F431]" ?after]) (intro conjI split cat none)
  moreover have "\<forall>(k, g) \<in> set CHORE_EMOJI_MAPPING. \<not> sublist k (toLowerCase ''Pay bills'')"
    by (simp add: lower_pay str_includes_iff [symmetric] CHORE_EMOJI_MAPPING_def)
  then have "findEmojiForChore ''Pay bills'' = [0x2728]"
    by (rule findEmojiForChore_first_match [of "''Pay bills''", THEN conjunct2, THEN conjunct1,
        THEN mp])
  ultimately show ?thesis
    using cat feed by simp
qed

text \<open>
  C6, as the code has it. The load effect leaves the state as it is when the store has
  no entry or an empty one; from the defaults (no chores, level 1, xp 0) that is the
  defaults. When \<open>JSON.parse\<close> returns a value, its chores, level and xp replace those of
  the state. When \<open>JSON.parse\<close> throws, the effect throws: the state is not reset to
  the defaults, since neither the effect nor any other part of the program catches an
  error.
\<close>

theorem load_effect_cases:
  "load_effect P None s = Inr s \<and> load_effect P (Some []) s = Inr s \<and>
   (\<forall>d e. d \<noteq> [] \<and> JSON_parse P d = Inl e \<longrightarrow> load_effect P (Some d) s = Inl e) \<and>
   (\<forall>d v. d \<noteq> [] \<and> JSON_parse P d = Inr v \<longrightarrow>
      load_effect P (Some d) s = Inr (s\<lparr>chores := chores v, level := level v, xp := xp v\<rparr>)) \<and>
   chores initial = [] \<and> level initial = 1 \<and> xp initial = 0"
  by (simp add: load_effect_def initial_def)

text \<open>
  The stored text of the sample session is read; an absent entry keeps the defaults; a
  text that is not JSON ends the effect with the error.
\<close>

theorem load_effect_cases_witness:
  "stored_text \<noteq> [] \<and> JSON_parse sample_platform stored_text = Inr stored_value \<and>
   load_effect sample_platform (Some stored_text) initial =
     Inr (initial\<lparr>chores := [], level := 1, xp := 990\<rparr>) \<and>
   load_effect sample_platform None initial = Inr initial \<and>
   corrupt_text \<noteq> [] \<and> JSON_parse sample_platform corrupt_text = Inl SyntaxError \<and>
   load_effect sample_platform (Some corrupt_text) loaded = Inl SyntaxError"
proof -
  have c: "corrupt_text \<noteq> []"
    by (simp add: corrupt_text_def)
  have "load_effect sample_platform (Some corrupt_text) loaded = Inl SyntaxError"
    using load_effect_cases [of sample_platform loaded] c sample_parse_corrupt by blast
  moreover
  have "load_effect sample_platform (Some stored_text) initial =
      Inr (initial\<lparr>chores := chores stored_value, level := level stored_value,
                     xp := xp stored_value\<rparr>)"
    using load_effect_cases [of sample_platform initial] stored_text_not_empty sample_parse
    by blast
  moreover have "load_effect sample_platform None initial = Inr initial"
    using load_effect_cases [of sample_platform initial] by blast
  ultimately show ?thesis
    using stored_text_not_empty sample_parse c sample_parse_corrupt
    by (simp add: stored_value_def)
qed

text \<open>
  C6 as claimed (a store that is not valid JSON falls back to the defaults without
  crashing) fails: on \<open>{bad\<close> the load effect ends in the \<open>SyntaxError\<close> that
  \<open>JSON.parse\<close> throws.
\<close>

theorem corrupt_store_is_not_reset:
  "JSON_parse sample_platform corrupt_text = Inl SyntaxError \<and>
   load_effect sample_platform (Some corrupt_text) initial = Inl SyntaxError \<and>
   load_effect sample_platform (Some corrupt_text) initial \<noteq> Inr initial"
  by (simp add: load_effect_def sample_parse_corrupt) (simp add: corrupt_text_def)

text \<open>
  C7. No two chores of the list should share an id. The id of a new chore is the reading
  of \<open>Date.now()\<close>, and nothing compares it with the ids in the list: two chores
  added at the same reading share their id, and the Remove button of one of them then
  removes both.
\<close>

theorem same_instant_same_id:
  "chores (run sample_platform
      [Change ''Wash the dishes'', Select hard, Add 1700000000000,
       Change ''Feed the cat'', Select easy, Add 1700000000000] initial) =
     [dishes,
      \<lparr>chore_id = 1700000000000, name = ''Feed the cat'', difficulty = easy,
        lastCompleted = None, streak = 0, emoji = [0x1F431]\<rparr>] \<and>
   chores (run sample_platform
      [Change ''Wash the dishes'', Select hard, Add 1700000000000,
       Change ''Feed the cat'', Select easy, Add 1700000000000, Remove dishes] initial) = []"
  by (simp add: initial_def dishes_def handleAddChore_def handleRemoveChore_def
      wash_the_dishes feed_the_cat trim_def isWhiteSpace_def)

text \<open>
  C8. The +1 Point button adds exactly 1 to \<open>points\<close> and changes nothing else while
  \<open>isPlaying\<close> holds; while it does not hold the button is not rendered, and the state
  stays as it is.
\<close>

theorem scorePoint_only_while_running:
  "(isPlaying s \<longrightarrow> dispatch P Point s = s\<lparr>points := points s + 1\<rparr>) \<and>
   (\<not> isPlaying s \<longrightarrow> dispatch P Point s = s)"
  by (simp add: scorePoint_def)

text \<open>
  In the started session a click takes the points from 0 to 1; in the idle state after
  loading there is nothing to click.
\<close>

theorem scorePoint_only_while_running_witness:
  "isPlaying started \<and> points started = 0 \<and>
   points (dispatch sample_platform Point started) = 1 \<and>
   \<not> isPlaying loaded \<and> dispatch sample_platform Point loaded = loaded"
proof -
  have a: "isPlaying started" and b: "\<not> isPlaying loaded" and c: "points started = 0"
    by (simp_all add: started_def loaded_def)
  have "dispatch sample_platform Point started = started\<lparr>points := points started + 1\<rparr>"
    using scorePoint_only_while_running [of started sample_platform] a by blast
  then have d: "points (dispatch sample_platform Point started) = 1"
    by (simp add: c)
  have "dispatch sample_platform Point loaded = loaded"
    using scorePoint_only_while_running [of loaded sample_platform] b by blast
  with a b c d show ?thesis by simp
qed

text \<open>
  C9. \<open>startGame chore\<close> sets the timer to the start value of the chore's difficulty
  (easy 45, medium 30, hard 15), the points to 0, the current chore to \<open>chore\<close>, and
  \<open>isPlaying\<close> to true; chores, level and xp stay.
\<close>

theorem startGame_sets_session:
  "timer (startGame c s) = (case difficulty c of easy \<Rightarrow> 45 | medium \<Rightarrow> 30 | hard \<Rightarrow> 15) \<and>
   points (startGame c s) = 0 \<and> currentChore (startGame c s) = Some c \<and>
   isPlaying (startGame c s) \<and>
   chores (startGame c s) = chores s \<and> level (startGame c s) = level s \<and>
   xp (startGame c s) = xp s"
  by (simp add: startGame_def time_cases)

text \<open>
  Starting a medium chore in the state the sample session ended in (5 points left over):
  30 seconds, 0 points.
\<close>

theorem startGame_sets_session_witness:
  "timer (startGame (dishes\<lparr>difficulty := medium\<rparr>) finished) = 30 \<and>
   points finished = 5 \<and>
   points (startGame (dishes\<lparr>difficulty := medium\<rparr>) finished) = 0 \<and>
   currentChore (startGame (dishes\<lparr>difficulty := medium\<rparr>) finished) =
     Some (dishes\<lparr>difficulty := medium\<rparr>)"
  using startGame_sets_session [of "dishes\<lparr>difficulty := medium\<rparr>" finished]
  by (simp add: finished_def)

text \<open>
  C10. In a reachable state with a current chore, that chore is in the list, and every
  session end (End Game button, or the timeout that takes the timer to 0) replaces each
  chore of the list with the current chore's id by the current chore with
  \<open>lastCompleted\<close> set to the clock reading and \<open>streak\<close> set to what
  \<open>updateStreak\<close> computes. So every chore with that id then has the clock reading as
  its \<open>lastCompleted\<close>, and as its streak: 1 if the current chore was never completed
  (or its \<open>lastCompleted\<close> is empty or not a date), its old streak plus 1 if the
  whole-day difference to its last completion is at most 1, and 1 if the difference is
  greater. Nothing depends on the points, so a session with 0 points counts as a
  completion.
\<close>

theorem session_end_completes_chore:
  assumes "reachable P s" and "currentChore s = Some c"
    and "e = End now today \<or> (e = Timeout now today \<and> timer s = 1)"
  shows "c \<in> set (chores s) \<and>
    chores (dispatch P e s) =
      map (\<lambda>x. if chore_id x = chore_id c
                then c\<lparr>lastCompleted := Some (toISOString P now),
                       streak := updateStreak P today c\<rparr>
                else x) (chores s) \<and>
    (\<exists>x \<in> set (chores (dispatch P e s)).
       chore_id x = chore_id c \<and> lastCompleted x = Some (toISOString P now) \<and>
       streak x = updateStreak P today c) \<and>
    (\<forall>x \<in> set (chores (dispatch P e s)).
       chore_id x = chore_id c \<longrightarrow>
       lastCompleted x = Some (toISOString P now) \<and>
       streak x =
         (case lastCompleted c of
            None \<Rightarrow> 1
          | Some l \<Rightarrow>
              if l = [] then 1
              else (case getTime P l of
                      None \<Rightarrow> 1
                    | Some t \<Rightarrow>
                        if (today - t) div (1000 * 60 * 60 * 24) \<le> 1
                        then streak c + 1 else 1)))"
proof -
  have playing: "isPlaying s" and member: "c \<in> set (chores s)"
    using reachable_invariant [OF assms(1)] assms(2) by simp_all
  obtain s' where s': "dispatch P e s = endGame P now today s'"
    "currentChore s' = currentChore s" "chores s' = chores s"
    using session_end [OF playing assms(3)] by blast
  have after: "chores (dispatch P e s) =
      map (\<lambda>x. if chore_id x = chore_id c
                then c\<lparr>lastCompleted := Some (toISOString P now),
                       streak := updateStreak P today c\<rparr>
                else x) (chores s)"
    using s' assms(2) by (simp add: endGame_chores [of s' c])
  let ?u = "c\<lparr>lastCompleted := Some (toISOString P now), streak := updateStreak P today c\<rparr>"
  have "?u \<in> set (chores (dispatch P e s))"
    unfolding after using member by (force simp: image_iff)
  then have ex: "\<exists>x \<in> set (chores (dispatch P e s)).
       chore_id x = chore_id c \<and> lastCompleted x = Some (toISOString P now) \<and>
       streak x = updateStreak P today c"
    by (rule bexI [rotated]) simp
  have rule: "updateStreak P today c =
         (case lastCompleted c of
            None \<Rightarrow> 1
          | Some l \<Rightarrow>
              if l = [] then 1
              else (case getTime P l of
                      None \<Rightarrow> 1
                    | Some t \<Rightarrow>
                        if (today - t) div (1000 * 60 * 60 * 24) \<le> 1
                        then streak c + 1 else 1))"
    by (simp add: updateStreak_def Let_def split: option.split)
  have each: "\<forall>x \<in> set (chores (dispatch P e s)).
       chore_id x = chore_id c \<longrightarrow>
       lastCompleted x = Some (toISOString P now) \<and> streak x = updateStreak P today c"
    unfolding after by auto
  from member after ex each [unfolded rule] show ?thesis
    by (intro conjI) assumption+
qed

text \<open>
  Ending the started sample session with 0 points, at once by the button or by the
  timeout of the last second: the chore, never completed before, gets its date and
  streak 1. Played again with 0 points and ended 25 hours after that completion, the
  chore goes from streak 1 to 2; ended 48 hours after it, the chore is back at 1.
\<close>

theorem session_end_completes_chore_witness:
  "reachable sample_platform started \<and> currentChore started = Some dishes \<and>
   points started = 0 \<and> streak dishes = 0 \<and> lastCompleted dishes = None \<and>
   chores (dispatch sample_platform (End 1700000060000 1700000060001) started) =
     [dishes\<lparr>lastCompleted := Some ''2023-11-14T22:14:20.000Z'', streak := 1\<rparr>] \<and>
   reachable sample_platform (started\<lparr>timer := 1\<rparr>) \<and>
   chores (dispatch sample_platform (Timeout 1700000060000 1700000060001)
            (started\<lparr>timer := 1\<rparr>)) =
     [dishes\<lparr>lastCompleted := Some ''2023-11-14T22:14:20.000Z'', streak := 1\<rparr>] \<and>
   reachable sample_platform replay \<and> points replay = 0 \<and>
   currentChore replay =
     Some (dishes\<lparr>lastCompleted := Some ''2023-11-14T22:14:20.000Z'', streak := 1\<rparr>) \<and>
   chores (dispatch sample_platform (End 1700090060000 1700090060001) replay) =
     [dishes\<lparr>lastCompleted := Some ''2023-11-15T23:14:20.000Z'', streak := 2\<rparr>] \<and>
   chores (dispatch sample_platform (End 1700172860000 1700172860001) replay) =
     [dishes\<lparr>lastCompleted := Some ''2023-11-16T22:14:20.000Z'', streak := 1\<rparr>]"
proof -
  let ?done = "dishes\<lparr>lastCompleted := Some ''2023-11-14T22:14:20.000Z'', streak := 1\<rparr>"
  have a: "currentChore started = Some dishes" and b: "points started = 0"
    and c: "streak dishes = 0" and d: "lastCompleted dishes = None"
    and l: "chores started = [dishes]"
    by (simp_all add: started_def dishes_def)
  have t: "toISOString sample_platform 1700000060000 = ''2023-11-14T22:14:20.000Z''"
    by (simp add: sample_platform_def iso_sample)
  have u: "updateStreak sample_platform 1700000060001 dishes = 1"
    by (simp add: updateStreak_def d)
  have first: "chores (dispatch sample_platform (End 1700000060000 1700000060001) started) =
     [dishes\<lparr>lastCompleted := Some ''2023-11-14T22:14:20.000Z'', streak := 1\<rparr>]"
    using session_end_completes_chore [OF reachable_started a,
        of "End 1700000060000 1700000060001" 1700000060000 1700000060001]
    by (simp add: l t u)
  have last_second:
    "chores (dispatch sample_platform (Timeout 1700000060000 1700000060001)
            (started\<lparr>timer := 1\<rparr>)) =
     [dishes\<lparr>lastCompleted := Some ''2023-11-14T22:14:20.000Z'', streak := 1\<rparr>]"
    using session_end_completes_chore [OF reachable_last_second,
        of dishes "Timeout 1700000060000 1700000060001" 1700000060000 1700000060001]
    by (simp add: a l t u)
  have a': "currentChore replay = Some ?done" and b': "points replay = 0"
    and l': "chores replay = [?done]"
    by (simp_all add: replay_def)
  have t1: "toISOString sample_platform 1700090060000 = ''2023-11-15T23:14:20.000Z''"
    and t2: "toISOString sample_platform 1700172860000 = ''2023-11-16T22:14:20.000Z''"
    by (simp_all add: sample_platform_def iso_next_day iso_two_days)
  have u1: "updateStreak sample_platform 1700090060001 ?done = 2"
    and u2: "updateStreak sample_platform 1700172860001 ?done = 1"
    by (simp_all add: updateStreak_def sample_getTime)
  have next_day:
    "chores (dispatch sample_platform (End 1700090060000 1700090060001) replay) =
     [dishes\<lparr>lastCompleted := Some ''2023-11-15T23:14:20.000Z'', streak := 2\<rparr>]"
    using session_end_completes_chore [OF reachable_replay a',
        of "End 1700090060000 1700090060001" 1700090060000 1700090060001]
    by (simp add: l' t1 u1)
  have two_days_later:
    "chores (dispatch sample_platform (End 1700172860000 1700172860001) replay) =
     [dishes\<lparr>lastCompleted := Some ''2023-11-16T22:14:20.000Z'', streak := 1\<rparr>]"
    using session_end_completes_chore [OF reachable_replay a',
        of "End 1700172860000 1700172860001" 1700172860000 1700172860001]
    by (simp add: l' t2 u2)
  from first last_second next_day two_days_later show ?thesis
    using reachable_started reachable_last_second reachable_replay a b c d a' b' by simp
qed

end
